theory Spec2Isabelle
  imports Complex_Main
begin

section \<open>Tensors, errors and the MSE criterion\<close>

text \<open>
  The numeric backend (torch) is outside the repository.  A batch tensor is modelled as a
  list of rows, one row per sample, each row holding the flattened entries of that sample;
  entries are real numbers, so rounding is not modelled.  What the repository's code relies
  on is written out: element-wise operations broadcast a dimension of size 1, any other
  size mismatch raises, indexing out of range raises.
\<close>

type_synonym vec = "real list"
type_synonym tensor = "real list list"

datatype error =
    IndexError
  | RuntimeError
  | TypeError
  | ValueError
  | AttributeError
  | ZeroDivisionError
  | NotANumber
  | FileNotFoundError
  | UnpicklingError
  | KeyError
  | InvalidSplit
  | InvalidChannelNumber nat

definition bind_e :: "error + 'a \<Rightarrow> ('a \<Rightarrow> error + 'b) \<Rightarrow> error + 'b" where
  "bind_e m f = (case m of Inl e \<Rightarrow> Inl e | Inr v \<Rightarrow> f v)"

fun collect :: "(error + 'a) list \<Rightarrow> error + 'a list" where
  "collect [] = Inr []"
| "collect (m # ms) = bind_e m (\<lambda>v. bind_e (collect ms) (\<lambda>vs. Inr (v # vs)))"

text \<open>Python indexing of a sequence with an integer: a negative index counts from the end.\<close>

definition py_index :: "'a list \<Rightarrow> int \<Rightarrow> error + 'a" where
  "py_index xs i =
     (if 0 \<le> i \<and> i < int (length xs) then Inr (xs ! nat i)
      else if i < 0 \<and> - int (length xs) \<le> i then Inr (xs ! nat (int (length xs) + i))
      else Inl IndexError)"

text \<open>\<open>t[idx]\<close> for an index tensor \<open>idx\<close>: the rows of \<open>t\<close> at those indices.\<close>

definition index_rows :: "'a list \<Rightarrow> int list \<Rightarrow> error + 'a list" where
  "index_rows t idx = collect (map (py_index t) idx)"

text \<open>Broadcasting of one dimension: equal sizes, or one of them is 1.\<close>

definition bcast_len :: "nat \<Rightarrow> nat \<Rightarrow> nat option" where
  "bcast_len a b =
     (if a = b then Some a else if a = 1 then Some b else if b = 1 then Some a else None)"

definition expand :: "nat \<Rightarrow> 'a list \<Rightarrow> 'a list" where
  "expand n xs = (if length xs = n then xs else replicate n (hd xs))"

definition bcast1 :: "('a \<Rightarrow> 'b \<Rightarrow> error + 'c) \<Rightarrow> 'a list \<Rightarrow> 'b list \<Rightarrow> error + 'c list" where
  "bcast1 f a b =
     (case bcast_len (length a) (length b) of
        None \<Rightarrow> Inl RuntimeError
      | Some n \<Rightarrow> collect (map2 f (expand n a) (expand n b)))"

definition elementwise1 :: "(real \<Rightarrow> real \<Rightarrow> real) \<Rightarrow> vec \<Rightarrow> vec \<Rightarrow> error + vec" where
  "elementwise1 f a b = bcast1 (\<lambda>u v. Inr (f u v)) a b"

definition elementwise2 :: "(real \<Rightarrow> real \<Rightarrow> real) \<Rightarrow> tensor \<Rightarrow> tensor \<Rightarrow> error + tensor" where
  "elementwise2 f a b = bcast1 (elementwise1 f) a b"

datatype reduction = Mean | Sum

text \<open>
  \<open>nn.MSELoss(reduction=...)\<close>: the squared differences of the broadcast operands, summed,
  and for \<open>mean\<close> divided by the number of entries.  On an empty tensor torch's mean is
  \<open>nan\<close>, which is no real number: the model reports \<open>NotANumber\<close>.
\<close>

definition MSELoss :: "reduction \<Rightarrow> tensor \<Rightarrow> tensor \<Rightarrow> error + real" where
  "MSELoss red a b =
     bind_e (elementwise2 (\<lambda>u v. (u - v)\<^sup>2) a b) (\<lambda>d.
       case red of
         Sum \<Rightarrow> Inr (sum_list (concat d))
       | Mean \<Rightarrow> if concat d = [] then Inl NotANumber
                 else Inr (sum_list (concat d) / real (length (concat d))))"


section \<open>Datasets and loaders (\<open>src/data/base.py\<close>)\<close>

text \<open>
  \<open>BaseDataset\<close> holds two tensors, \<open>data\<close> and \<open>targets\<close>.  Rows of \<open>data\<close> are flattened
  samples, so the shape of one sample (\<open>data.shape[1:]\<close>) is kept beside them.
\<close>

record dataset =
  data :: tensor
  targets :: tensor
  sample_shape :: "nat list"

text \<open>
  \<open>get_split\<close>: \<open>train_test_split\<close> (scikit-learn) is a parameter \<open>splitter\<close> giving the train
  and test positions for \<open>n\<close> samples; \<open>x[train_idx]\<close> is numpy indexing with an index array.
\<close>

definition get_split ::
  "(nat \<Rightarrow> real \<Rightarrow> int \<Rightarrow> int list \<times> int list) \<Rightarrow> tensor \<Rightarrow> tensor \<Rightarrow> string \<Rightarrow> real \<Rightarrow> int
     \<Rightarrow> error + tensor \<times> tensor" where
  "get_split splitter x y split split_ratio seed =
     (if split = ''none'' then Inr (x, y)
      else let (train_idx, test_idx) = splitter (length x) split_ratio seed
           in if split = ''train''
              then bind_e (index_rows x train_idx) (\<lambda>xs.
                   bind_e (index_rows y train_idx) (\<lambda>ys. Inr (xs, ys)))
              else bind_e (index_rows x test_idx) (\<lambda>xs.
                   bind_e (index_rows y test_idx) (\<lambda>ys. Inr (xs, ys))))"

definition BaseDataset_init ::
  "(nat \<Rightarrow> real \<Rightarrow> int \<Rightarrow> int list \<times> int list) \<Rightarrow> tensor \<Rightarrow> nat list \<Rightarrow> tensor \<Rightarrow> string \<Rightarrow> real \<Rightarrow> int
     \<Rightarrow> error + dataset" where
  "BaseDataset_init splitter x x_shape y split split_ratio seed =
     (if split \<noteq> ''train'' \<and> split \<noteq> ''test'' \<and> split \<noteq> ''none'' then Inl InvalidSplit
      else bind_e (get_split splitter x y split split_ratio seed) (\<lambda>(xs, ys).
             Inr \<lparr>data = xs, targets = ys, sample_shape = x_shape\<rparr>))"

definition BaseDataset_getitem :: "dataset \<Rightarrow> int \<Rightarrow> error + vec \<times> vec \<times> int" where
  "BaseDataset_getitem ds index =
     bind_e (py_index (data ds) index) (\<lambda>x.
     bind_e (py_index (targets ds) index) (\<lambda>y. Inr (x, y, index)))"

definition BaseDataset_len :: "dataset \<Rightarrow> nat" where
  "BaseDataset_len ds = length (data ds)"


text \<open>
  \<open>torch.utils.data.DataLoader(x, batch_size=..., shuffle=True)\<close>: every pass over the loader
  visits the positions \<open>0..len-1\<close> in an order drawn by torch's generator (the parameter
  \<open>order\<close>, one order per pass), reads each sample with \<open>__getitem__\<close>, and stacks
  \<open>batch_size\<close> consecutive samples into one batch (the last batch may be smaller).
\<close>

datatype pass = Train_pass nat | Eval_pass nat

type_synonym batch = "tensor \<times> tensor \<times> int list"
type_synonym loader = "dataset \<times> nat"

definition chunks :: "nat \<Rightarrow> 'a list \<Rightarrow> 'a list list" where
  "chunks n xs = map (\<lambda>k. take n (drop (k * n) xs)) [0..<(length xs + n - 1) div n]"

definition collate :: "(vec \<times> vec \<times> int) list \<Rightarrow> batch" where
  "collate ss = (map fst ss, map (\<lambda>s. fst (snd s)) ss, map (\<lambda>s. snd (snd s)) ss)"

definition DataLoader :: "dataset \<Rightarrow> int \<Rightarrow> error + loader" where
  "DataLoader x batch_size = (if batch_size \<le> 0 then Inl ValueError else Inr (x, nat batch_size))"

definition batches :: "(nat \<Rightarrow> nat list) \<Rightarrow> loader \<Rightarrow> error + batch list" where
  "batches order ldr =
     (case ldr of (x, bs) \<Rightarrow>
        bind_e (collect (map (\<lambda>i. BaseDataset_getitem x (int i)) (order (BaseDataset_len x)))) (\<lambda>ss.
          Inr (map collate (chunks bs ss))))"

section \<open>External collaborators\<close>

text \<open>
  The network modules, the optimizer, torch's random generator and the manifold learners are
  consumed through narrow contracts and are parameters of the model:
  \<^item> \<open>new_module shape\<close>: the freshly initialised \<open>AutoencoderModule\<close> (rank-1 samples) or
    \<open>ConvAutoencoderModule\<close> (rank-3 samples);
  \<^item> \<open>forward training p batch\<close>: \<open>torch_module(data)\<close>, the pair \<open>(x_hat, z)\<close>, in training or
    evaluation mode;
  \<^item> \<open>Adam p\<close>: the state of a new \<open>torch.optim.Adam\<close> over the parameters;
  \<^item> \<open>backward_step loss opt p\<close>: \<open>zero_grad\<close>, \<open>loss.backward()\<close> and \<open>optimizer.step()\<close>, where
    \<open>loss\<close> is the batch loss as a function of the parameters;
  \<^item> \<open>layout p\<close>: the names and shapes of the parameter tensors of a module or of a state dict,
    which is what a strict \<open>load_state_dict\<close> compares;
  \<^item> \<open>shuffle pass n\<close>: the order in which a shuffling loader visits \<open>n\<close> samples on that pass;
  \<^item> \<open>fit_transform\<close>, \<open>zscore\<close>: the embedder and \<open>scipy.stats.zscore\<close>;
  \<^item> \<open>potential_distances\<close>: \<open>squareform(pdist(diff_potential))\<close> of a fitted PHATE operator.
\<close>

record ('p, 'o) torch =
  new_module :: "nat list \<Rightarrow> 'p"
  forward :: "bool \<Rightarrow> 'p \<Rightarrow> tensor \<Rightarrow> tensor \<times> tensor"
  Adam :: "'p \<Rightarrow> 'o"
  backward_step :: "('p \<Rightarrow> error + real) \<Rightarrow> 'o \<Rightarrow> 'p \<Rightarrow> 'o \<times> 'p"
  layout :: "'p \<Rightarrow> string list"
  shuffle :: "pass \<Rightarrow> nat \<Rightarrow> nat list"
  fit_transform :: "dataset \<Rightarrow> tensor"
  zscore :: "tensor \<Rightarrow> tensor"
  potential_distances :: "dataset \<Rightarrow> tensor"

text \<open>
  The mini-batch loop shared by both packages:
  \<^verbatim>\<open>for batch in self.loader:
    self.optimizer.zero_grad(); self.train_body(batch); self.optimizer.step()\<close>
  \<open>loss p batch\<close> is what \<open>train_body\<close> computes when the parameters are \<open>p\<close>; a batch whose
  loss computation raises aborts the loop.
\<close>

fun train_batches ::
  "('p, 'o) torch \<Rightarrow> ('p \<Rightarrow> batch \<Rightarrow> error + real) \<Rightarrow> batch list \<Rightarrow> 'p \<times> 'o \<Rightarrow> error + 'p \<times> 'o" where
  "train_batches env loss [] po = Inr po"
| "train_batches env loss (b # bs) po =
     (case po of (p, opt) \<Rightarrow>
        bind_e (loss p b) (\<lambda>_.
          case backward_step env (\<lambda>q. loss q b) opt p of (opt', p') \<Rightarrow>
            train_batches env loss bs (p', opt')))"


section \<open>The autoencoder of \<open>grae/models/grae_models.py\<close>\<close>

text \<open>
  \<open>np.inf\<close>, the initial value of \<open>current_loss_min\<close>, beside the finite losses.
\<close>

datatype xreal = Real real | PInfinity

definition less_xreal :: "real \<Rightarrow> xreal \<Rightarrow> bool" where
  "less_xreal v m = (case m of PInfinity \<Rightarrow> True | Real r \<Rightarrow> v < r)"

datatype model_class = AE | GRAEBase

text \<open>
  What a file at a path may hold: a checkpoint as \<open>save\<close> writes it (a state dict with its
  \<open>data_shape\<close> entry), a state dict without that entry, or anything \<open>torch.load\<close> cannot read.
\<close>

datatype 'p stored = Checkpoint 'p "nat list option" | State_dict_only 'p | Unreadable

text \<open>
  One record for an instance of \<open>AE\<close> or of \<open>GRAEBase\<close> (and its subclasses, which only fix
  constructor arguments), together with the directory it writes its checkpoint to:
  \<open>files\<close> maps a path to what is stored there.  The fields \<open>lam\<close>, \<open>lam_original\<close>,
  \<open>target_embedding\<close> and \<open>relax\<close> exist on \<open>GRAEBase\<close> only.  Attributes that only
  parametrise the collaborators (\<open>lr\<close>, \<open>weight_decay\<close>, \<open>hidden_dims\<close>, \<open>noise\<close>, ...) are part of \<open>torch\<close>;
  \<open>comet_exp\<close> is \<open>None\<close> (no metric is logged).  \<open>self.criterion\<close> is assigned once, in
  \<open>__init__\<close>, and is the constant \<open>criterion\<close>.
\<close>

record ('p, 'o) model =
  cls :: model_class
  torch_module :: "'p option"
  optimizer :: "'o option"
  epochs :: int
  batch_size :: int
  data_shape :: "nat list option"
  data_val :: "dataset option"
  val_loader :: "loader option"
  loader :: "loader option"
  patience :: int
  current_loss_min :: xreal
  early_stopping_count :: int
  write_path :: string
  lam :: real
  lam_original :: real
  target_embedding :: "tensor option"
  relax :: bool
  files :: "string \<Rightarrow> 'p stored option"

definition criterion :: "tensor \<Rightarrow> tensor \<Rightarrow> error + real" where
  "criterion = MSELoss Mean"

text \<open>\<open>AE.__init__\<close>, with the directory contents \<open>fs\<close> at construction time.\<close>

definition AE_init ::
  "(string \<Rightarrow> 'p stored option) \<Rightarrow> int \<Rightarrow> int \<Rightarrow> int \<Rightarrow> dataset option \<Rightarrow> string
     \<Rightarrow> ('p, 'o) model" where
  "AE_init fs epochs_arg batch_size_arg patience_arg data_val_arg write_path_arg =
     \<lparr>cls = AE, torch_module = None, optimizer = None, epochs = epochs_arg,
      batch_size = batch_size_arg, data_shape = None, data_val = data_val_arg,
      val_loader = None, loader = None, patience = patience_arg,
      current_loss_min = PInfinity, early_stopping_count = 0, write_path = write_path_arg,
      lam = 0, lam_original = 0, target_embedding = None, relax = False, files = fs\<rparr>"

text \<open>\<open>GRAEBase.__init__\<close>: \<open>super().__init__(**kwargs)\<close>, then the regularisation fields.\<close>

definition GRAEBase_init ::
  "(string \<Rightarrow> 'p stored option) \<Rightarrow> real \<Rightarrow> bool \<Rightarrow> int \<Rightarrow> int \<Rightarrow> int \<Rightarrow> dataset option
     \<Rightarrow> string \<Rightarrow> ('p, 'o) model" where
  "GRAEBase_init fs lam_arg relax_arg epochs_arg batch_size_arg patience_arg data_val_arg write_path_arg =
     (AE_init fs epochs_arg batch_size_arg patience_arg data_val_arg write_path_arg)
       \<lparr>cls := GRAEBase, lam := lam_arg, lam_original := lam_arg, target_embedding := None,
        relax := relax_arg\<rparr>"

definition init_torch_module ::
  "('p, 'o) torch \<Rightarrow> nat list \<Rightarrow> ('p, 'o) model \<Rightarrow> error + ('p, 'o) model" where
  "init_torch_module env shape st =
     (if length shape = 1 \<or> length shape = 3
      then Inr (st\<lparr>torch_module := Some (new_module env shape)\<rparr>)
      else Inl (InvalidChannelNumber (length shape)))"

definition get_loader :: "('p, 'o) model \<Rightarrow> dataset \<Rightarrow> error + loader" where
  "get_loader st x = DataLoader x (batch_size st)"

subsection \<open>Loss\<close>

definition AE_compute_loss :: "tensor \<Rightarrow> tensor \<Rightarrow> tensor \<Rightarrow> int list \<Rightarrow> error + real" where
  "AE_compute_loss x x_hat z idx = criterion x x_hat"

definition GRAEBase_compute_loss ::
  "('p, 'o) model \<Rightarrow> tensor \<Rightarrow> tensor \<Rightarrow> tensor \<Rightarrow> int list \<Rightarrow> error + real" where
  "GRAEBase_compute_loss st x x_hat z idx =
     (if lam st > 0
      then bind_e (criterion x x_hat) (\<lambda>rec_loss.
           bind_e (case target_embedding st of None \<Rightarrow> Inl TypeError
                   | Some emb \<Rightarrow> index_rows emb idx) (\<lambda>target.
           bind_e (criterion z target) (\<lambda>geo_loss.
             Inr (rec_loss + lam st * geo_loss))))
      else criterion x x_hat)"

definition compute_loss ::
  "('p, 'o) model \<Rightarrow> tensor \<Rightarrow> tensor \<Rightarrow> tensor \<Rightarrow> int list \<Rightarrow> error + real" where
  "compute_loss st x x_hat z idx =
     (case cls st of
        AE \<Rightarrow> AE_compute_loss x x_hat z idx
      | GRAEBase \<Rightarrow> GRAEBase_compute_loss st x x_hat z idx)"

text \<open>\<open>train_body\<close>: the forward pass and the loss of one batch, at parameters \<open>p\<close>.\<close>

definition train_body ::
  "('p, 'o) torch \<Rightarrow> ('p, 'o) model \<Rightarrow> 'p \<Rightarrow> batch \<Rightarrow> error + real" where
  "train_body env st p b =
     (case b of (batch_data, _, idx) \<Rightarrow>
        case forward env True p batch_data of (x_hat, z) \<Rightarrow>
          compute_loss st batch_data x_hat z idx)"

subsection \<open>Validation, checkpoints, end of epoch\<close>

definition path_join :: "string \<Rightarrow> string \<Rightarrow> string" where
  "path_join a b = (if a = [] then b else if last a = CHR ''/'' then a @ b else a @ ''/'' @ b)"

definition checkpoint_path :: "('p, 'o) model \<Rightarrow> string" where
  "checkpoint_path st = path_join (write_path st) ''checkpoint.pt''"

definition save :: "string \<Rightarrow> ('p, 'o) model \<Rightarrow> error + ('p, 'o) model" where
  "save path st =
     (case torch_module st of
        None \<Rightarrow> Inl AttributeError
      | Some p \<Rightarrow> Inr (st\<lparr>files := (files st)(path := Some (Checkpoint p (data_shape st)))\<rparr>))"

text \<open>
  \<open>load\<close>: \<open>torch.load\<close> raises on a file that is no pickled object; \<open>state.pop('data_shape')\<close>
  raises \<open>KeyError\<close> on a state dict saved without that entry; the module is built from the
  stored shape if there is none; \<open>load_state_dict\<close> is strict and raises \<open>RuntimeError\<close> unless
  the names and shapes of the stored parameters are those of the module, and then the module
  holds the stored parameters.
\<close>

definition load :: "('p, 'o) torch \<Rightarrow> string \<Rightarrow> ('p, 'o) model \<Rightarrow> error + ('p, 'o) model" where
  "load env path st =
     (case files st path of
        None \<Rightarrow> Inl FileNotFoundError
      | Some Unreadable \<Rightarrow> Inl UnpicklingError
      | Some (State_dict_only state) \<Rightarrow> Inl KeyError
      | Some (Checkpoint state shape) \<Rightarrow>
          bind_e (if torch_module st = None
                  then (case shape of None \<Rightarrow> Inl TypeError
                        | Some sh \<Rightarrow> init_torch_module env sh st)
                  else Inr st) (\<lambda>st'.
            case torch_module st' of
              None \<Rightarrow> Inl AttributeError
            | Some p \<Rightarrow>
                if layout env state = layout env p
                then Inr (st'\<lparr>torch_module := Some state\<rparr>)
                else Inl RuntimeError))"

text \<open>
  \<open>eval_MSE\<close>: the per-observation average of the batch losses over one pass of a loader, the
  module in evaluation mode.
\<close>

definition eval_MSE ::
  "('p, 'o) torch \<Rightarrow> pass \<Rightarrow> ('p, 'o) model \<Rightarrow> loader \<Rightarrow> error + real" where
  "eval_MSE env ps st ldr =
     (case torch_module st of
        None \<Rightarrow> Inl AttributeError
      | Some p \<Rightarrow>
          bind_e (batches (shuffle env ps) ldr) (\<lambda>bs.
          bind_e (collect (map (\<lambda>b. case b of (batch_data, _, idx) \<Rightarrow>
                     bind_e (criterion batch_data (fst (forward env False p batch_data))) (\<lambda>l.
                       Inr (real (length batch_data) * l))) bs)) (\<lambda>ls.
            if BaseDataset_len (fst ldr) = 0 then Inl ZeroDivisionError
            else Inr (sum_list ls / real (BaseDataset_len (fst ldr))))))"

definition log_metrics_val ::
  "('p, 'o) torch \<Rightarrow> nat \<Rightarrow> ('p, 'o) model \<Rightarrow> error + ('p, 'o) model" where
  "log_metrics_val env epoch st =
     (case val_loader st of
        None \<Rightarrow> Inr st
      | Some vl \<Rightarrow>
          bind_e (eval_MSE env (Eval_pass epoch) st vl) (\<lambda>val_mse.
            if less_xreal val_mse (current_loss_min st)
            then save (checkpoint_path st)
                   (st\<lparr>current_loss_min := Real val_mse, early_stopping_count := 0\<rparr>)
            else Inr (st\<lparr>early_stopping_count := early_stopping_count st + 1\<rparr>)))"

text \<open>\<open>log_metrics_train\<close> only reports to \<open>comet_exp\<close>, which is absent.\<close>

definition log_metrics ::
  "('p, 'o) torch \<Rightarrow> nat \<Rightarrow> ('p, 'o) model \<Rightarrow> error + ('p, 'o) model" where
  "log_metrics env epoch st = log_metrics_val env epoch st"

text \<open>
  \<open>int(self.patience / 2)\<close>: true division, then truncation towards zero.
\<close>

definition half_patience :: "int \<Rightarrow> int" where
  "half_patience p = (if 0 \<le> p then p div 2 else - ((- p) div 2))"

definition AE_end_epoch :: "nat \<Rightarrow> ('p, 'o) model \<Rightarrow> ('p, 'o) model" where
  "AE_end_epoch epoch st = st"

definition GRAEBase_end_epoch :: "nat \<Rightarrow> ('p, 'o) model \<Rightarrow> ('p, 'o) model" where
  "GRAEBase_end_epoch epoch st =
     (if relax st \<and> lam st > 0 \<and> early_stopping_count st = half_patience (patience st)
      then st\<lparr>lam := 0\<rparr> else st)"

definition end_epoch :: "nat \<Rightarrow> ('p, 'o) model \<Rightarrow> ('p, 'o) model" where
  "end_epoch epoch st =
     (case cls st of AE \<Rightarrow> AE_end_epoch epoch st | GRAEBase \<Rightarrow> GRAEBase_end_epoch epoch st)"

subsection \<open>\<open>fit\<close>\<close>

text \<open>One iteration of \<open>for epoch in range(1, self.epochs + 1)\<close>, up to the early-stopping test.\<close>

definition run_epoch ::
  "('p, 'o) torch \<Rightarrow> nat \<Rightarrow> ('p, 'o) model \<Rightarrow> error + ('p, 'o) model" where
  "run_epoch env epoch st =
     (case (torch_module st, optimizer st, loader st) of
        (Some p, Some opt, Some ldr) \<Rightarrow>
          bind_e (batches (shuffle env (Train_pass epoch)) ldr) (\<lambda>bs.
          bind_e (train_batches env (train_body env st) bs (p, opt)) (\<lambda>(p', opt').
          bind_e (log_metrics env epoch (st\<lparr>torch_module := Some p', optimizer := Some opt'\<rparr>)) (\<lambda>st'.
            Inr (end_epoch epoch st'))))
      | _ \<Rightarrow> Inl AttributeError)"

fun epoch_loop ::
  "('p, 'o) torch \<Rightarrow> nat list \<Rightarrow> ('p, 'o) model \<Rightarrow> error + ('p, 'o) model" where
  "epoch_loop env [] st = Inr st"
| "epoch_loop env (epoch # rest) st =
     bind_e (run_epoch env epoch st) (\<lambda>st'.
       if early_stopping_count st' = patience st' then Inr st'
       else epoch_loop env rest st')"

text \<open>
  The same loop, returning the state at the end of every epoch it ran (the last entry is
  the state the loop leaves).
\<close>

fun epoch_trace ::
  "('p, 'o) torch \<Rightarrow> nat list \<Rightarrow> ('p, 'o) model \<Rightarrow> error + ('p, 'o) model list" where
  "epoch_trace env [] st = Inr []"
| "epoch_trace env (epoch # rest) st =
     bind_e (run_epoch env epoch st) (\<lambda>st'.
       if early_stopping_count st' = patience st' then Inr [st']
       else bind_e (epoch_trace env rest st') (\<lambda>tr. Inr (st' # tr)))"

text \<open>\<open>AE.fit\<close> up to the first metrics: data shape, module, optimizer and loaders.\<close>

definition fit_setup ::
  "('p, 'o) torch \<Rightarrow> dataset \<Rightarrow> ('p, 'o) model \<Rightarrow> error + ('p, 'o) model" where
  "fit_setup env x st =
     bind_e (BaseDataset_getitem x 0) (\<lambda>_.
     bind_e (if torch_module st = None
             then init_torch_module env (sample_shape x) (st\<lparr>data_shape := Some (sample_shape x)\<rparr>)
             else Inr (st\<lparr>data_shape := Some (sample_shape x)\<rparr>)) (\<lambda>st1.
     case torch_module st1 of
       None \<Rightarrow> Inl AttributeError
     | Some p \<Rightarrow>
         bind_e (get_loader st1 x) (\<lambda>ldr.
         bind_e (case data_val st1 of
                   None \<Rightarrow> Inr (val_loader st1)
                 | Some v \<Rightarrow> bind_e (get_loader st1 v) (\<lambda>vl. Inr (Some vl))) (\<lambda>vl.
           Inr (st1\<lparr>optimizer := Some (Adam env p), loader := Some ldr, val_loader := vl\<rparr>)))))"

definition epoch_range :: "('p, 'o) model \<Rightarrow> nat list" where
  "epoch_range st = [1..<nat (epochs st + 1)]"

text \<open>\<open>AE.fit\<close> up to the end of the epoch loop.\<close>

definition fit_train ::
  "('p, 'o) torch \<Rightarrow> dataset \<Rightarrow> ('p, 'o) model \<Rightarrow> error + ('p, 'o) model" where
  "fit_train env x st =
     bind_e (fit_setup env x st) (\<lambda>st1.
     bind_e (log_metrics env 0 st1) (\<lambda>st2.
       epoch_loop env (epoch_range st2) st2))"

text \<open>The end of \<open>AE.fit\<close>: "Load checkpoint if it exists".\<close>

definition restore_checkpoint ::
  "('p, 'o) torch \<Rightarrow> ('p, 'o) model \<Rightarrow> error + ('p, 'o) model" where
  "restore_checkpoint env st =
     (if files st (checkpoint_path st) \<noteq> None
      then bind_e (load env (checkpoint_path st) st) (\<lambda>st'.
             Inr (st'\<lparr>files := (files st')(checkpoint_path st := None)\<rparr>))
      else Inr st)"

definition AE_fit ::
  "('p, 'o) torch \<Rightarrow> dataset \<Rightarrow> ('p, 'o) model \<Rightarrow> error + ('p, 'o) model" where
  "AE_fit env x st = bind_e (fit_train env x st) (restore_checkpoint env)"

definition GRAEBase_fit ::
  "('p, 'o) torch \<Rightarrow> dataset \<Rightarrow> ('p, 'o) model \<Rightarrow> error + ('p, 'o) model" where
  "GRAEBase_fit env x st =
     AE_fit env x (st\<lparr>target_embedding := Some (zscore env (fit_transform env x))\<rparr>)"


section \<open>The models of \<open>src/models/models.py\<close>\<close>

text \<open>
  The older package has its own \<open>AE\<close>, \<open>GRAE\<close> and \<open>SGRAE\<close>; their names carry the suffix
  \<open>_src\<close> here.  Its criterion is \<open>nn.MSELoss(reduction='sum')\<close>.
\<close>

datatype src_class = AE_src | GRAE_src | SGRAE_src

record ('p, 'o) src_model =
  cls_src :: src_class
  torch_module_src :: "'p option"
  optimizer_src :: "'o option"
  epochs_src :: int
  batch_size_src :: int
  loader_src :: "loader option"
  lam_src :: real
  z_src :: "tensor option"
  drop_lam_src :: "int option"
  max_grae_src :: "nat option"
  d_mx_src :: "tensor option"

definition criterion_src :: "tensor \<Rightarrow> tensor \<Rightarrow> error + real" where
  "criterion_src = MSELoss Sum"

text \<open>\<open>int(v)\<close> of a float: truncation towards zero.\<close>

definition py_int :: "real \<Rightarrow> int" where
  "py_int v = (if 0 \<le> v then \<lfloor>v\<rfloor> else \<lceil>v\<rceil>)"

definition AE_src_init :: "int \<Rightarrow> int \<Rightarrow> ('p, 'o) src_model" where
  "AE_src_init epochs_arg batch_size_arg =
     \<lparr>cls_src = AE_src, torch_module_src = None, optimizer_src = None, epochs_src = epochs_arg,
      batch_size_src = batch_size_arg, loader_src = None, lam_src = 0, z_src = None,
      drop_lam_src = None, max_grae_src = None, d_mx_src = None\<rparr>"

definition GRAE_src_init ::
  "real \<Rightarrow> real option \<Rightarrow> nat option \<Rightarrow> int \<Rightarrow> int \<Rightarrow> ('p, 'o) src_model" where
  "GRAE_src_init lam_arg drop_lam_arg max_grae_arg epochs_arg batch_size_arg =
     (AE_src_init epochs_arg batch_size_arg)
       \<lparr>cls_src := GRAE_src, lam_src := lam_arg, z_src := None,
        drop_lam_src := Some (case drop_lam_arg of
                                Some d \<Rightarrow> py_int (d * real_of_int epochs_arg)
                              | None \<Rightarrow> epochs_arg),
        max_grae_src := max_grae_arg\<rparr>"

definition SGRAE_init :: "real \<Rightarrow> int option \<Rightarrow> int \<Rightarrow> int \<Rightarrow> ('p, 'o) src_model" where
  "SGRAE_init lam_arg drop_lam_arg epochs_arg batch_size_arg =
     (AE_src_init epochs_arg batch_size_arg)
       \<lparr>cls_src := SGRAE_src, d_mx_src := None, lam_src := lam_arg, drop_lam_src := drop_lam_arg\<rparr>"

subsection \<open>Loss\<close>

definition AE_src_apply_loss :: "tensor \<Rightarrow> tensor \<Rightarrow> tensor \<Rightarrow> int list \<Rightarrow> error + real" where
  "AE_src_apply_loss x x_hat z idx = criterion_src x x_hat"

definition GRAE_src_apply_loss ::
  "('p, 'o) src_model \<Rightarrow> tensor \<Rightarrow> tensor \<Rightarrow> tensor \<Rightarrow> int list \<Rightarrow> error + real" where
  "GRAE_src_apply_loss st x x_hat z idx =
     (if lam_src st > 0
      then bind_e (criterion_src x x_hat) (\<lambda>rec_loss.
           bind_e (case z_src st of None \<Rightarrow> Inl TypeError
                   | Some emb \<Rightarrow> index_rows emb idx) (\<lambda>target.
           bind_e (criterion_src z target) (\<lambda>geo_loss.
             Inr (rec_loss + lam_src st * geo_loss))))
      else criterion_src x x_hat)"

text \<open>\<open>torch.norm(t, p=2, dim=1)\<close>: the Euclidean norm of every row.\<close>

definition norm_rows :: "tensor \<Rightarrow> vec" where
  "norm_rows t = map (\<lambda>row. sqrt (sum_list (map (\<lambda>v. v\<^sup>2) row))) t"

text \<open>
  \<open>m[b1, b2]\<close> for two index tensors: they are broadcast against each other and entry \<open>k\<close>
  of the result is \<open>m[b1[k], b2[k]]\<close>.
\<close>

definition index_pairs :: "tensor \<Rightarrow> int list \<Rightarrow> int list \<Rightarrow> error + vec" where
  "index_pairs m b1 b2 =
     (case bcast_len (length b1) (length b2) of
        None \<Rightarrow> Inl IndexError
      | Some n \<Rightarrow>
          collect (map2 (\<lambda>i j. bind_e (py_index m i) (\<lambda>row. py_index row j))
                     (expand n b1) (expand n b2)))"

definition SGRAE_apply_loss ::
  "('p, 'o) src_model \<Rightarrow> tensor \<Rightarrow> tensor \<Rightarrow> tensor \<Rightarrow> int list \<Rightarrow> error + real" where
  "SGRAE_apply_loss st x x_hat z idx =
     (if lam_src st > 0
      then let half = length x div 2;
               batch_1 = take half idx;
               batch_2 = drop half (take (2 * half) idx)
           in bind_e (elementwise2 (\<lambda>u v. u - v) (take half z) (drop half z)) (\<lambda>diff.
              let d_z = norm_rows diff
              in bind_e (case d_mx_src st of None \<Rightarrow> Inl TypeError
                         | Some m \<Rightarrow> index_pairs m batch_1 batch_2) (\<lambda>ref.
                 bind_e (elementwise1 (\<lambda>u v. (u - v)\<^sup>2) d_z ref) (\<lambda>d.
                 let geo_loss = sum_list d
                 in bind_e (criterion_src x x_hat) (\<lambda>rec_loss.
                      Inr (rec_loss + lam_src st * geo_loss)))))
      else criterion_src x x_hat)"

definition apply_loss ::
  "('p, 'o) src_model \<Rightarrow> tensor \<Rightarrow> tensor \<Rightarrow> tensor \<Rightarrow> int list \<Rightarrow> error + real" where
  "apply_loss st x x_hat z idx =
     (case cls_src st of
        AE_src \<Rightarrow> AE_src_apply_loss x x_hat z idx
      | GRAE_src \<Rightarrow> GRAE_src_apply_loss st x x_hat z idx
      | SGRAE_src \<Rightarrow> SGRAE_apply_loss st x x_hat z idx)"

definition train_body_src ::
  "('p, 'o) torch \<Rightarrow> ('p, 'o) src_model \<Rightarrow> 'p \<Rightarrow> batch \<Rightarrow> error + real" where
  "train_body_src env st p b =
     (case b of (batch_data, _, idx) \<Rightarrow>
        case forward env True p batch_data of (x_hat, z) \<Rightarrow>
          apply_loss st batch_data x_hat z idx)"

subsection \<open>\<open>fit\<close>\<close>

definition SGRAE_end_epoch :: "nat \<Rightarrow> ('p, 'o) src_model \<Rightarrow> ('p, 'o) src_model" where
  "SGRAE_end_epoch epoch st =
     (case drop_lam_src st of
        None \<Rightarrow> st
      | Some dl \<Rightarrow> if int epoch = dl - 1 then st\<lparr>lam_src := 0\<rparr> else st)"

definition end_epoch_src :: "nat \<Rightarrow> ('p, 'o) src_model \<Rightarrow> ('p, 'o) src_model" where
  "end_epoch_src epoch st =
     (case cls_src st of SGRAE_src \<Rightarrow> SGRAE_end_epoch epoch st | _ \<Rightarrow> st)"

definition run_epoch_src ::
  "('p, 'o) torch \<Rightarrow> nat \<Rightarrow> ('p, 'o) src_model \<Rightarrow> error + ('p, 'o) src_model" where
  "run_epoch_src env epoch st =
     (case (torch_module_src st, optimizer_src st, loader_src st) of
        (Some p, Some opt, Some ldr) \<Rightarrow>
          bind_e (batches (shuffle env (Train_pass epoch)) ldr) (\<lambda>bs.
          bind_e (train_batches env (train_body_src env st) bs (p, opt)) (\<lambda>(p', opt').
            Inr (end_epoch_src epoch
                   (st\<lparr>torch_module_src := Some p', optimizer_src := Some opt'\<rparr>))))
      | _ \<Rightarrow> Inl AttributeError)"

fun epoch_loop_src ::
  "('p, 'o) torch \<Rightarrow> nat list \<Rightarrow> ('p, 'o) src_model \<Rightarrow> error + ('p, 'o) src_model" where
  "epoch_loop_src env [] st = Inr st"
| "epoch_loop_src env (epoch # rest) st =
     bind_e (run_epoch_src env epoch st) (epoch_loop_src env rest)"

text \<open>
  \<open>AE.fit(X, epochs=None, epoch_offset=0)\<close>; \<open>epoch_offset\<close> only labels the printed progress.
\<close>

definition AE_src_fit ::
  "('p, 'o) torch \<Rightarrow> dataset \<Rightarrow> int option \<Rightarrow> int \<Rightarrow> ('p, 'o) src_model
     \<Rightarrow> error + ('p, 'o) src_model" where
  "AE_src_fit env X epochs_arg epoch_offset st =
     (let n_epochs = (case epochs_arg of None \<Rightarrow> epochs_src st | Some e \<Rightarrow> e)
      in bind_e (if torch_module_src st = None
                 then bind_e (BaseDataset_getitem X 0) (\<lambda>_.
                        if length (sample_shape X) = 1 \<or> length (sample_shape X) = 3
                        then Inr (st\<lparr>torch_module_src := Some (new_module env (sample_shape X))\<rparr>)
                        else Inl (InvalidChannelNumber (length (sample_shape X))))
                 else Inr st) (\<lambda>st1.
         case torch_module_src st1 of
           None \<Rightarrow> Inl AttributeError
         | Some p \<Rightarrow>
             bind_e (DataLoader X (batch_size_src st1)) (\<lambda>ldr.
               epoch_loop_src env [0..<nat n_epochs]
                 (st1\<lparr>optimizer_src := Some (Adam env p), loader_src := Some ldr\<rparr>))))"


definition SGRAE_fit ::
  "('p, 'o) torch \<Rightarrow> dataset \<Rightarrow> ('p, 'o) src_model \<Rightarrow> error + ('p, 'o) src_model" where
  "SGRAE_fit env X st =
     AE_src_fit env X None 0 (st\<lparr>d_mx_src := Some (potential_distances env X)\<rparr>)"


section \<open>Notions used to state the properties\<close>

text \<open>
  The states of one \<open>AE.fit\<close> call at the end of every epoch: entry \<open>0\<close> is the state after the
  first metrics (\<open>self.log_metrics(0)\<close>, before any training), entry \<open>e\<close> the state at the end
  of training epoch \<open>e\<close>.  The last entry is the state in which the loop is left.
\<close>

definition fit_trace ::
  "('p, 'o) torch \<Rightarrow> dataset \<Rightarrow> ('p, 'o) model \<Rightarrow> error + ('p, 'o) model list" where
  "fit_trace env x st =
     bind_e (fit_setup env x st) (\<lambda>st1.
     bind_e (log_metrics env 0 st1) (\<lambda>st2.
     bind_e (epoch_trace env (epoch_range st2) st2) (\<lambda>tr. Inr (st2 # tr))))"

definition GRAEBase_fit_trace ::
  "('p, 'o) torch \<Rightarrow> dataset \<Rightarrow> ('p, 'o) model \<Rightarrow> error + ('p, 'o) model list" where
  "GRAEBase_fit_trace env x st =
     fit_trace env x (st\<lparr>target_embedding := Some (zscore env (fit_transform env x))\<rparr>)"

text \<open>
  The validation loss of epoch \<open>epoch\<close> improves on \<open>best\<close>: \<open>cur\<close> is the state at the end of
  that epoch, whose module is the one \<open>log_metrics_val\<close> evaluated.
\<close>

definition improved :: "('p, 'o) torch \<Rightarrow> nat \<Rightarrow> xreal \<Rightarrow> ('p, 'o) model \<Rightarrow> bool" where
  "improved env epoch best cur =
     (case val_loader cur of
        None \<Rightarrow> False
      | Some vl \<Rightarrow>
          (case eval_MSE env (Eval_pass epoch) cur vl of
             Inl _ \<Rightarrow> False
           | Inr v \<Rightarrow> less_xreal v best))"

text \<open>
  Improvement at epoch \<open>j\<close> of a fit call started in state \<open>st\<close> with trace \<open>tr\<close>: the loss is
  compared with the minimum held at the end of the previous epoch, and at epoch \<open>0\<close> with the
  minimum the instance held when \<open>fit\<close> was called.
\<close>

definition improved_at ::
  "('p, 'o) torch \<Rightarrow> ('p, 'o) model \<Rightarrow> ('p, 'o) model list \<Rightarrow> nat \<Rightarrow> bool" where
  "improved_at env st tr j =
     improved env j (current_loss_min (if j = 0 then st else tr ! (j - 1))) (tr ! j)"

text \<open>Tensors of equal shape, and the mean and the sum of their squared differences.\<close>

definition same_shape :: "tensor \<Rightarrow> tensor \<Rightarrow> bool" where
  "same_shape a b = (map length a = map length b)"

definition squared_errors :: "tensor \<Rightarrow> tensor \<Rightarrow> real list" where
  "squared_errors a b = concat (map2 (map2 (\<lambda>u v. (u - v)\<^sup>2)) a b)"

definition mean_squared_error :: "tensor \<Rightarrow> tensor \<Rightarrow> real" where
  "mean_squared_error a b = sum_list (squared_errors a b) / real (length (squared_errors a b))"

definition sum_squared_error :: "tensor \<Rightarrow> tensor \<Rightarrow> real" where
  "sum_squared_error a b = sum_list (squared_errors a b)"

text \<open>
  The composite loss in the spec's words, "reconstruction MSE plus
  \<open>lambda * MSE(batch_latents, target_embedding[batch_indices])\<close>", with the lookup always made.
\<close>

definition composite_loss ::
  "real \<Rightarrow> tensor \<Rightarrow> tensor \<Rightarrow> tensor \<Rightarrow> tensor \<Rightarrow> int list \<Rightarrow> error + real" where
  "composite_loss l x x_hat z emb idx =
     bind_e (criterion x x_hat) (\<lambda>rec_loss.
     bind_e (index_rows emb idx) (\<lambda>target.
     bind_e (criterion z target) (\<lambda>geo_loss.
       Inr (rec_loss + l * geo_loss))))"

text \<open>The training state as \<open>__init__\<close> sets it.\<close>

definition reset_training_state :: "('p, 'o) model \<Rightarrow> ('p, 'o) model" where
  "reset_training_state st = st\<lparr>current_loss_min := PInfinity, early_stopping_count := 0\<rparr>"






subsection \<open>A small instance\<close>

text \<open>
  Collaborators for concrete runs: the module is a single number \<open>p\<close>, starting at \<open>0\<close>; it
  reconstructs every entry as \<open>p\<close> and embeds every sample as \<open>[p]\<close>; an optimizer step moves
  \<open>p\<close> by \<open>1\<close> away from zero; a negative number stands for a module of another architecture
  (another layout); loaders visit the samples in order; the embedder maps every sample to
  \<open>[0]\<close>.
\<close>

definition demo_env :: "(real, nat) torch" where
  "demo_env =
     \<lparr>new_module = (\<lambda>shape. 0),
      forward = (\<lambda>training p d. (map (map (\<lambda>v. p)) d, map (\<lambda>row. [p]) d)),
      Adam = (\<lambda>p. 0),
      backward_step = (\<lambda>loss opt p. (opt + 1, if p < 0 then p - 1 else p + 1)),
      layout = (\<lambda>p. if p < 0 then [''other''] else [''weight'']),
      shuffle = (\<lambda>ps n. [0..<n]),
      fit_transform = (\<lambda>ds. map (\<lambda>row. [0]) (data ds)),
      zscore = (\<lambda>t. t),
      potential_distances = (\<lambda>ds. map (\<lambda>r. map (\<lambda>s. 0) (data ds)) (data ds))\<rparr>"

definition one_sample :: "real \<Rightarrow> dataset" where
  "one_sample v = \<lparr>data = [[v]], targets = [[0]], sample_shape = [1]\<rparr>"

definition no_files :: "string \<Rightarrow> real stored option" where
  "no_files = (\<lambda>path. None)"


text \<open>
  An \<open>AE\<close> and a relaxing \<open>GRAEBase\<close> (\<open>lam = 10\<close>) with the given epoch budget and patience,
  batch size \<open>1\<close>, and a validation split of one sample (or none); the runs below fit them
  to the one-sample dataset \<open>one_sample 1\<close>.
\<close>

definition demo_model :: "int \<Rightarrow> int \<Rightarrow> real option \<Rightarrow> (real, nat) model" where
  "demo_model n_epochs pat val = AE_init no_files n_epochs 1 pat (map_option one_sample val) []"

definition demo_grae :: "int \<Rightarrow> int \<Rightarrow> real option \<Rightarrow> (real, nat) model" where
  "demo_grae n_epochs pat val =
     GRAEBase_init no_files 10 True n_epochs 1 pat (map_option one_sample val) []"

definition demo_trace :: "(real, nat) model \<Rightarrow> (real, nat) model list" where
  "demo_trace st = projr (fit_trace demo_env (one_sample 1) st)"

definition demo_trained :: "(real, nat) model \<Rightarrow> (real, nat) model" where
  "demo_trained st = projr (fit_train demo_env (one_sample 1) st)"

definition demo_fitted :: "(real, nat) model \<Rightarrow> (real, nat) model" where
  "demo_fitted st = projr (AE_fit demo_env (one_sample 1) st)"

text \<open>
  An \<open>AE\<close> without validation split whose directory already holds a checkpoint written for a
  module of another architecture.
\<close>

definition demo_stale :: "int \<Rightarrow> int \<Rightarrow> (real, nat) model" where
  "demo_stale n_epochs pat =
     AE_init (no_files(''checkpoint.pt'' \<mapsto> Checkpoint (- 1) (Some [1]))) n_epochs 1 pat None []"

section \<open>Basic facts\<close>

lemma bind_e_Inr [simp]: "bind_e (Inr v) f = f v"
  by (simp add: bind_e_def)

lemma bind_e_Inl [simp]: "bind_e (Inl e) f = Inl e"
  by (simp add: bind_e_def)

lemma bind_e_eq_Inr: "bind_e m f = Inr r \<longleftrightarrow> (\<exists>v. m = Inr v \<and> f v = Inr r)"
  by (cases m) simp_all

lemma collect_nth:
  "collect ms = Inr vs \<Longrightarrow> length vs = length ms \<and> (\<forall>i < length ms. ms ! i = Inr (vs ! i))"
proof (induction ms arbitrary: vs)
  case Nil
  then show ?case by simp
next
  case (Cons m ms)
  from Cons.prems obtain v vs' where m: "m = Inr v" and c: "collect ms = Inr vs'"
    and vs: "vs = v # vs'"
    by (auto simp: bind_e_eq_Inr)
  from Cons.IH [OF c] m vs show ?case
    by (auto simp: nth_Cons split: nat.splits)
qed

lemma index_rows_nth:
  assumes "index_rows t idx = Inr rows"
  shows "length rows = length idx" and "i < length idx \<Longrightarrow> py_index t (idx ! i) = Inr (rows ! i)"
  using collect_nth [of "map (py_index t) idx" rows] assms
  by (simp_all add: index_rows_def)

lemma elementwise1_same: "length a = length b \<Longrightarrow> elementwise1 f a b = Inr (map2 f a b)"
proof -
  assume len: "length a = length b"
  have "collect (map2 (\<lambda>u v. Inr (f u v)) a b) = Inr (map2 f a b)"
    using len by (induction a b rule: list_induct2) simp_all
  then show ?thesis
    using len by (simp add: elementwise1_def bcast1_def bcast_len_def expand_def)
qed

lemma elementwise2_same:
  assumes "same_shape a b"
  shows "elementwise2 f a b = Inr (map2 (map2 f) a b)"
proof -
  from assms have len: "length a = length b"
    unfolding same_shape_def by (metis length_map)
  have "map length a = map length b \<Longrightarrow>
        collect (map2 (elementwise1 f) a b) = Inr (map2 (map2 f) a b)"
    using len by (induction a b rule: list_induct2) (simp_all add: elementwise1_same)
  with assms len show ?thesis
    by (simp add: elementwise2_def bcast1_def bcast_len_def expand_def same_shape_def)
qed

lemma criterion_same:
  assumes "same_shape a b" and "squared_errors a b \<noteq> []"
  shows "criterion a b = Inr (mean_squared_error a b)"
  using assms
  by (simp add: criterion_def MSELoss_def elementwise2_same mean_squared_error_def
      squared_errors_def)

lemma criterion_src_same:
  assumes "same_shape a b"
  shows "criterion_src a b = Inr (sum_squared_error a b)"
  using assms
  by (simp add: criterion_src_def MSELoss_def elementwise2_same sum_squared_error_def
      squared_errors_def)

lemmas tensor_defs =
  criterion_def criterion_src_def MSELoss_def elementwise2_def elementwise1_def bcast1_def
  bcast_len_def expand_def index_rows_def py_index_def same_shape_def squared_errors_def
  mean_squared_error_def sum_squared_error_def

section \<open>One epoch\<close>

lemma eval_MSE_module:
  "torch_module a = torch_module b \<Longrightarrow> eval_MSE env ps a vl = eval_MSE env ps b vl"
  by (simp add: eval_MSE_def)

text \<open>What one metrics pass does to the state.\<close>

lemma log_metrics_cases:
  assumes "log_metrics env e st = Inr st'"
  shows "(improved env e (current_loss_min st) st \<and>
            (\<exists>p v. torch_module st = Some p
               \<and> st' = st\<lparr>current_loss_min := Real v, early_stopping_count := 0,
                          files := (files st)(checkpoint_path st := Some (Checkpoint p (data_shape st)))\<rparr>))
       \<or> (\<not> improved env e (current_loss_min st) st \<and> val_loader st \<noteq> None
            \<and> st' = st\<lparr>early_stopping_count := early_stopping_count st + 1\<rparr>)
       \<or> (val_loader st = None \<and> st' = st)"
proof (cases "val_loader st")
  case None
  with assms show ?thesis by (simp add: log_metrics_def log_metrics_val_def)
next
  case (Some vl)
  with assms obtain v where v: "eval_MSE env (Eval_pass e) st vl = Inr v"
    and r: "(if less_xreal v (current_loss_min st)
             then save (checkpoint_path st) (st\<lparr>current_loss_min := Real v, early_stopping_count := 0\<rparr>)
             else Inr (st\<lparr>early_stopping_count := early_stopping_count st + 1\<rparr>)) = Inr st'"
    by (auto simp: log_metrics_def log_metrics_val_def bind_e_eq_Inr)
  show ?thesis
  proof (cases "less_xreal v (current_loss_min st)")
    case True
    with Some v have imp: "improved env e (current_loss_min st) st"
      by (simp add: improved_def)
    from True r obtain p where "torch_module st = Some p"
      and "st' = st\<lparr>current_loss_min := Real v, early_stopping_count := 0,
                   files := (files st)(checkpoint_path st := Some (Checkpoint p (data_shape st)))\<rparr>"
      by (auto simp: save_def checkpoint_path_def split: option.splits)
    with imp show ?thesis by blast
  next
    case False
    with Some v have "\<not> improved env e (current_loss_min st) st"
      by (simp add: improved_def)
    with False r Some show ?thesis by auto
  qed
qed


lemma improved_module:
  "torch_module a = torch_module b \<Longrightarrow> val_loader a = val_loader b \<Longrightarrow>
   improved env e best a = improved env e best b"
  by (simp add: improved_def eval_MSE_module [of a b] split: option.splits)

lemma end_epoch_fields [simp]:
  "cls (end_epoch e s) = cls s"
  "torch_module (end_epoch e s) = torch_module s"
  "optimizer (end_epoch e s) = optimizer s"
  "epochs (end_epoch e s) = epochs s"
  "batch_size (end_epoch e s) = batch_size s"
  "data_shape (end_epoch e s) = data_shape s"
  "data_val (end_epoch e s) = data_val s"
  "val_loader (end_epoch e s) = val_loader s"
  "loader (end_epoch e s) = loader s"
  "patience (end_epoch e s) = patience s"
  "current_loss_min (end_epoch e s) = current_loss_min s"
  "early_stopping_count (end_epoch e s) = early_stopping_count s"
  "write_path (end_epoch e s) = write_path s"
  "target_embedding (end_epoch e s) = target_embedding s"
  "relax (end_epoch e s) = relax s"
  "files (end_epoch e s) = files s"
  by (simp_all add: end_epoch_def AE_end_epoch_def GRAEBase_end_epoch_def split: model_class.splits)


lemma checkpoint_path_end_epoch [simp]: "checkpoint_path (end_epoch e s) = checkpoint_path s"
  by (simp add: checkpoint_path_def)

lemma run_epoch_decompose:
  assumes "run_epoch env e st = Inr st'"
  shows "\<exists>p' opt' stm. log_metrics env e (st\<lparr>torch_module := Some p', optimizer := Some opt'\<rparr>) = Inr stm
           \<and> st' = end_epoch e stm"
  using assms
  by (auto simp: run_epoch_def bind_e_eq_Inr split: option.splits prod.splits)

text \<open>What one epoch leaves unchanged.\<close>

lemma run_epoch_frame:
  assumes "run_epoch env e st = Inr st'"
  shows "cls st' = cls st" "epochs st' = epochs st" "patience st' = patience st"
    "relax st' = relax st" "write_path st' = write_path st" "val_loader st' = val_loader st"
    "data_val st' = data_val st" "loader st' = loader st" "checkpoint_path st' = checkpoint_path st"
    "torch_module st' \<noteq> None" "data_shape st' = data_shape st"
proof -
  from run_epoch_decompose [OF assms] obtain p' opt' stm
    where m: "log_metrics env e (st\<lparr>torch_module := Some p', optimizer := Some opt'\<rparr>) = Inr stm"
      and e: "st' = end_epoch e stm" by blast
  from log_metrics_cases [OF m] e
  show "cls st' = cls st" "epochs st' = epochs st" "patience st' = patience st"
    "relax st' = relax st" "write_path st' = write_path st" "val_loader st' = val_loader st"
    "data_val st' = data_val st" "loader st' = loader st" "checkpoint_path st' = checkpoint_path st"
    "torch_module st' \<noteq> None" "data_shape st' = data_shape st"
    by (auto simp: checkpoint_path_def)
qed

text \<open>What one epoch does to the early-stopping state and to the checkpoint.\<close>

lemma run_epoch_metrics:
  assumes "run_epoch env e st = Inr st'"
  shows "(improved env e (current_loss_min st) st' \<and> early_stopping_count st' = 0
            \<and> (\<exists>p. torch_module st' = Some p
                 \<and> files st' = (files st)(checkpoint_path st := Some (Checkpoint p (data_shape st)))))
       \<or> (\<not> improved env e (current_loss_min st) st' \<and> val_loader st \<noteq> None
            \<and> early_stopping_count st' = early_stopping_count st + 1
            \<and> current_loss_min st' = current_loss_min st \<and> files st' = files st)
       \<or> (val_loader st = None \<and> early_stopping_count st' = early_stopping_count st
            \<and> current_loss_min st' = current_loss_min st \<and> files st' = files st)"
proof -
  from run_epoch_decompose [OF assms] obtain p' opt' stm
    where m: "log_metrics env e (st\<lparr>torch_module := Some p', optimizer := Some opt'\<rparr>) = Inr stm"
      and e: "st' = end_epoch e stm" by blast
  let ?s = "st\<lparr>torch_module := Some p', optimizer := Some opt'\<rparr>"
  have "torch_module st' = torch_module ?s" "val_loader st' = val_loader ?s"
    using log_metrics_cases [OF m] e by auto
  then have same: "improved env e (current_loss_min st) st' = improved env e (current_loss_min ?s) ?s"
    by (simp add: improved_module [of st' ?s])
  from log_metrics_cases [OF m] e same show ?thesis
    by (auto simp: checkpoint_path_def)
qed


text \<open>The loop and its trace.\<close>

lemma epoch_loop_trace:
  "epoch_loop env es st = bind_e (epoch_trace env es st) (\<lambda>tr. Inr (last (st # tr)))"
proof (induction es arbitrary: st)
  case Nil
  show ?case by simp
next
  case (Cons e es)
  show ?case
  proof (cases "run_epoch env e st")
    case (Inl err)
    then show ?thesis by simp
  next
    case (Inr st')
    show ?thesis
    proof (cases "early_stopping_count st' = patience st'")
      case True
      with Inr show ?thesis by simp
    next
      case False
      with Inr Cons.IH [of st'] show ?thesis
        by (cases "epoch_trace env es st'") simp_all
    qed
  qed
qed

lemma epoch_trace_length:
  "epoch_trace env es st = Inr tr \<Longrightarrow> length tr \<le> length es"
proof (induction es arbitrary: st tr)
  case Nil
  then show ?case by simp
next
  case (Cons e es)
  then show ?case
    by (fastforce simp: bind_e_eq_Inr split: if_splits)
qed

lemma epoch_trace_step:
  "epoch_trace env es st = Inr tr \<Longrightarrow> i < length tr \<Longrightarrow>
   run_epoch env (es ! i) ((st # tr) ! i) = Inr (tr ! i)"
proof (induction es arbitrary: st tr i)
  case Nil
  then show ?case by simp
next
  case (Cons e es)
  from Cons.prems(1) obtain st' where r: "run_epoch env e st = Inr st'"
    and rest: "(if early_stopping_count st' = patience st' then Inr [st']
                else bind_e (epoch_trace env es st') (\<lambda>tr. Inr (st' # tr))) = Inr tr"
    by (auto simp: bind_e_eq_Inr)
  show ?case
  proof (cases "early_stopping_count st' = patience st'")
    case True
    with rest Cons.prems(2) r show ?thesis by auto
  next
    case False
    with rest obtain tr' where tr': "epoch_trace env es st' = Inr tr'" and tr: "tr = st' # tr'"
      by (auto simp: bind_e_eq_Inr)
    show ?thesis
    proof (cases i)
      case 0
      with r tr show ?thesis by simp
    next
      case (Suc j)
      with Cons.prems(2) tr have "j < length tr'" by simp
      from Cons.IH [OF tr' this] Suc tr show ?thesis by simp
    qed
  qed
qed


lemma epoch_trace_stopped:
  "epoch_trace env es st = Inr tr \<Longrightarrow> length tr < length es \<Longrightarrow>
   tr \<noteq> [] \<and> early_stopping_count (last tr) = patience (last tr)"
proof (induction es arbitrary: st tr)
  case Nil
  then show ?case by simp
next
  case (Cons e es)
  from Cons.prems(1) obtain st' where r: "run_epoch env e st = Inr st'"
    and rest: "(if early_stopping_count st' = patience st' then Inr [st']
                else bind_e (epoch_trace env es st') (\<lambda>tr. Inr (st' # tr))) = Inr tr"
    by (auto simp: bind_e_eq_Inr)
  show ?case
  proof (cases "early_stopping_count st' = patience st'")
    case True
    with rest show ?thesis by auto
  next
    case False
    with rest obtain tr' where tr': "epoch_trace env es st' = Inr tr'" and tr: "tr = st' # tr'"
      by (auto simp: bind_e_eq_Inr)
    with Cons.prems(2) have "length tr' < length es" by simp
    from Cons.IH [OF tr' this] tr show ?thesis by simp
  qed
qed

section \<open>A whole fit call\<close>

lemma fit_setup_frame:
  assumes "fit_setup env x st = Inr s"
  shows "current_loss_min s = current_loss_min st"
    "early_stopping_count s = early_stopping_count st"
    "files s = files st" "patience s = patience st" "cls s = cls st" "relax s = relax st"
    "lam s = lam st" "write_path s = write_path st" "epochs s = epochs st"
    "data_val s = data_val st" "checkpoint_path s = checkpoint_path st"
    "torch_module s \<noteq> None" "data_val st = None \<Longrightarrow> val_loader s = val_loader st"
    "data_val st \<noteq> None \<Longrightarrow> val_loader s \<noteq> None"
  using assms
  by (auto simp: fit_setup_def bind_e_eq_Inr init_torch_module_def checkpoint_path_def
      split: if_splits option.splits)

lemma log_metrics_frame:
  assumes "log_metrics env e st = Inr st'"
  shows "cls st' = cls st" "epochs st' = epochs st" "patience st' = patience st"
    "relax st' = relax st" "write_path st' = write_path st" "val_loader st' = val_loader st"
    "data_val st' = data_val st" "checkpoint_path st' = checkpoint_path st"
    "torch_module st' = torch_module st" "lam st' = lam st"
  using log_metrics_cases [OF assms] by (auto simp: checkpoint_path_def)

lemma epoch_range_length [simp]: "length (epoch_range s) = nat (epochs s)"
  by (simp add: epoch_range_def nat_diff_distrib')

lemma epoch_range_nth: "i < nat (epochs s) \<Longrightarrow> epoch_range s ! i = Suc i"
  by (simp add: epoch_range_def del: upt_Suc)

lemma fit_trace_decompose:
  assumes "fit_trace env x st = Inr tr"
  shows "\<exists>s1 s0 tr'. fit_setup env x st = Inr s1 \<and> log_metrics env 0 s1 = Inr s0
           \<and> epoch_trace env (epoch_range s0) s0 = Inr tr' \<and> tr = s0 # tr'"
  using assms by (auto simp: fit_trace_def bind_e_eq_Inr)

lemma fit_train_trace:
  "fit_train env x st = bind_e (fit_trace env x st) (\<lambda>tr. Inr (last tr))"
proof (cases "fit_setup env x st")
  case (Inl err)
  then show ?thesis by (simp add: fit_train_def fit_trace_def)
next
  case s1: (Inr s1)
  show ?thesis
  proof (cases "log_metrics env 0 s1")
    case (Inl err)
    with s1 show ?thesis by (simp add: fit_train_def fit_trace_def)
  next
    case (Inr s0)
    with s1 show ?thesis
      by (cases "epoch_trace env (epoch_range s0) s0")
         (simp_all add: fit_train_def fit_trace_def epoch_loop_trace)
  qed
qed

lemma fit_trace_nonempty: "fit_trace env x st = Inr tr \<Longrightarrow> tr \<noteq> []"
  by (auto dest: fit_trace_decompose)

lemma fit_trace_length:
  assumes "fit_trace env x st = Inr tr"
  shows "length tr \<le> Suc (nat (epochs st))"
proof -
  from fit_trace_decompose [OF assms] obtain s1 s0 tr'
    where s1: "fit_setup env x st = Inr s1" and s0: "log_metrics env 0 s1 = Inr s0"
      and tr': "epoch_trace env (epoch_range s0) s0 = Inr tr'" and tr: "tr = s0 # tr'"
    by blast
  have "epochs s0 = epochs st"
    using fit_setup_frame(9) [OF s1] log_metrics_frame(2) [OF s0] by simp
  with epoch_trace_length [OF tr'] tr show ?thesis by simp
qed

lemma fit_trace_step:
  assumes "fit_trace env x st = Inr tr" and "Suc j < length tr"
  shows "run_epoch env (Suc j) (tr ! j) = Inr (tr ! Suc j)"
proof -
  from fit_trace_decompose [OF assms(1)] obtain s1 s0 tr'
    where tr': "epoch_trace env (epoch_range s0) s0 = Inr tr'" and tr: "tr = s0 # tr'"
    by blast
  from assms(2) tr have j: "j < length tr'" by simp
  with epoch_trace_length [OF tr'] have "j < nat (epochs s0)" by simp
  then have "epoch_range s0 ! j = Suc j" by (rule epoch_range_nth)
  with epoch_trace_step [OF tr' j] tr show ?thesis by simp
qed

lemma fit_trace_frame:
  assumes "fit_trace env x st = Inr tr" and "j < length tr"
  shows "cls (tr ! j) = cls st \<and> epochs (tr ! j) = epochs st \<and> patience (tr ! j) = patience st
       \<and> relax (tr ! j) = relax st \<and> checkpoint_path (tr ! j) = checkpoint_path st
       \<and> data_val (tr ! j) = data_val st \<and> torch_module (tr ! j) \<noteq> None
       \<and> val_loader (tr ! j) = val_loader (tr ! 0)"
  using assms(2)
proof (induction j)
  case 0
  from fit_trace_decompose [OF assms(1)] obtain s1 s0 tr'
    where s1: "fit_setup env x st = Inr s1" and s0: "log_metrics env 0 s1 = Inr s0"
      and tr: "tr = s0 # tr'"
    by blast
  from fit_setup_frame [OF s1] log_metrics_frame [OF s0] tr show ?case by simp
next
  case (Suc j)
  then have "j < length tr" by simp
  from Suc.IH [OF this] run_epoch_frame [OF fit_trace_step [OF assms(1) Suc.prems]]
  show ?case by simp
qed

lemma fit_trace_val_loader:
  assumes "fit_trace env x st = Inr tr"
  shows "data_val st \<noteq> None \<Longrightarrow> val_loader (tr ! 0) \<noteq> None"
    and "data_val st = None \<Longrightarrow> val_loader (tr ! 0) = val_loader st"
proof -
  from fit_trace_decompose [OF assms(1)] obtain s1 s0 tr'
    where s1: "fit_setup env x st = Inr s1" and s0: "log_metrics env 0 s1 = Inr s0"
      and tr: "tr = s0 # tr'"
    by blast
  show "data_val st \<noteq> None \<Longrightarrow> val_loader (tr ! 0) \<noteq> None"
    using fit_setup_frame(14) [OF s1] log_metrics_frame(6) [OF s0] tr by simp
  show "data_val st = None \<Longrightarrow> val_loader (tr ! 0) = val_loader st"
    using fit_setup_frame(13) [OF s1] log_metrics_frame(6) [OF s0] tr by simp
qed

text \<open>
  The early-stopping counter and the checkpoint file along the trace: an improvement resets
  the counter and stores the module of that epoch; otherwise, with a validation loader, the
  counter goes up by one and the file is left alone.
\<close>

lemma fit_trace_first:
  assumes "fit_trace env x st = Inr tr"
  shows "(improved_at env st tr 0 \<and> early_stopping_count (tr ! 0) = 0
            \<and> (\<exists>p. torch_module (tr ! 0) = Some p
                 \<and> files (tr ! 0) = (files st)(checkpoint_path st := Some (Checkpoint p (data_shape (tr ! 0))))))
       \<or> (\<not> improved_at env st tr 0 \<and> val_loader (tr ! 0) \<noteq> None
            \<and> early_stopping_count (tr ! 0) = early_stopping_count st + 1
            \<and> files (tr ! 0) = files st)
       \<or> (val_loader (tr ! 0) = None \<and> early_stopping_count (tr ! 0) = early_stopping_count st
            \<and> files (tr ! 0) = files st)"
proof -
  from fit_trace_decompose [OF assms(1)] obtain s1 s0 tr'
    where s1: "fit_setup env x st = Inr s1" and s0: "log_metrics env 0 s1 = Inr s0"
      and tr: "tr = s0 # tr'"
    by blast
  have "improved env 0 (current_loss_min s1) s1 = improved env 0 (current_loss_min st) s0"
    using fit_setup_frame(1) [OF s1] log_metrics_frame [OF s0]
    by (simp add: improved_module [of s1 s0])
  then have imp: "improved env 0 (current_loss_min s1) s1 = improved_at env st tr 0"
    using tr by (simp add: improved_at_def)
  from log_metrics_cases [OF s0] imp fit_setup_frame [OF s1] tr show ?thesis
    by auto
qed

lemma fit_trace_next:
  assumes "fit_trace env x st = Inr tr" and "Suc j < length tr"
  shows "(improved_at env st tr (Suc j) \<and> early_stopping_count (tr ! Suc j) = 0
            \<and> (\<exists>p. torch_module (tr ! Suc j) = Some p
                 \<and> files (tr ! Suc j) =
                     (files (tr ! j))(checkpoint_path st := Some (Checkpoint p (data_shape (tr ! j))))))
       \<or> (\<not> improved_at env st tr (Suc j) \<and> val_loader (tr ! 0) \<noteq> None
            \<and> early_stopping_count (tr ! Suc j) = early_stopping_count (tr ! j) + 1
            \<and> files (tr ! Suc j) = files (tr ! j))
       \<or> (val_loader (tr ! 0) = None
            \<and> early_stopping_count (tr ! Suc j) = early_stopping_count (tr ! j)
            \<and> files (tr ! Suc j) = files (tr ! j))"
proof -
  from assms(2) have j: "j < length tr" by simp
  from fit_trace_frame [OF assms(1) j]
  have f: "checkpoint_path (tr ! j) = checkpoint_path st" "val_loader (tr ! j) = val_loader (tr ! 0)"
    by simp_all
  from run_epoch_metrics [OF fit_trace_step [OF assms]] f show ?thesis
    unfolding improved_at_def by auto
qed


lemma fit_trace_stopped:
  assumes "fit_trace env x st = Inr tr" and "length tr - 1 < nat (epochs st)"
  shows "2 \<le> length tr \<and> early_stopping_count (last tr) = patience st"
proof -
  from fit_trace_decompose [OF assms(1)] obtain s1 s0 tr'
    where s1: "fit_setup env x st = Inr s1" and s0: "log_metrics env 0 s1 = Inr s0"
      and tr': "epoch_trace env (epoch_range s0) s0 = Inr tr'" and tr: "tr = s0 # tr'"
    by blast
  have "epochs s0 = epochs st"
    using fit_setup_frame(9) [OF s1] log_metrics_frame(2) [OF s0] by simp
  with assms(2) tr have "length tr' < length (epoch_range s0)" by simp
  from epoch_trace_stopped [OF tr' this]
  have ne: "tr' \<noteq> []" and c: "early_stopping_count (last tr') = patience (last tr')" by simp_all
  from ne tr have l: "last tr = tr ! (length tr - 1)" "length tr - 1 < length tr" "last tr = last tr'"
    by (simp_all add: last_conv_nth)
  from fit_trace_frame [OF assms(1) l(2)] l(1) have "patience (last tr) = patience st" by simp
  with c l(3) ne tr show ?thesis by (cases tr') simp_all
qed



lemma restore_checkpoint_None:
  assumes "files s (checkpoint_path s) = None"
  shows "restore_checkpoint env s = Inr s"
  using assms by (simp add: restore_checkpoint_def)

lemma AE_fit_trace:
  assumes "fit_trace env x st = Inr tr"
  shows "AE_fit env x st = restore_checkpoint env (last tr)"
  using assms by (simp add: AE_fit_def fit_train_trace)





lemma restore_checkpoint_frame:
  assumes "restore_checkpoint env s = Inr s'"
  shows "early_stopping_count s' = early_stopping_count s"
    "current_loss_min s' = current_loss_min s"
    "data_val s' = data_val s" "val_loader s' = val_loader s"
    "patience s' = patience s" "epochs s' = epochs s" "lam s' = lam s"
    "cls s' = cls s" "relax s' = relax s"
  using assms
  by (auto simp: restore_checkpoint_def load_def init_torch_module_def bind_e_eq_Inr
      split: if_splits option.splits stored.splits)

lemma fit_trace_last:
  assumes "fit_trace env x st = Inr tr"
  shows "last tr = tr ! (length tr - 1)" "length tr - 1 < length tr"
  using fit_trace_nonempty [OF assms] by (simp_all add: last_conv_nth)

lemma improved_at_val_loader: "improved_at env st tr j \<Longrightarrow> val_loader (tr ! j) \<noteq> None"
  by (auto simp: improved_at_def improved_def split: option.splits)

text \<open>Without a validation loader the counter never moves and no checkpoint is written.\<close>

lemma no_validation_counter:
  assumes tr: "fit_trace env x st = Inr tr"
    and "data_val st = None" and "val_loader st = None"
    and j: "j < length tr"
  shows "early_stopping_count (tr ! j) = early_stopping_count st \<and> files (tr ! j) = files st"
  using j
proof (induction j)
  case 0
  from fit_trace_val_loader(2) [OF tr assms(2)] assms(3) fit_trace_first [OF tr]
    improved_at_val_loader [of env st tr 0]
  show ?case by auto
next
  case (Suc j)
  then have "j < length tr" by simp
  from fit_trace_val_loader(2) [OF tr assms(2)] assms(3) fit_trace_next [OF tr Suc.prems]
    Suc.IH [OF this] improved_at_val_loader [of env st tr "Suc j"]
    fit_trace_frame [OF tr Suc.prems]
  show ?case by auto
qed




section \<open>The loop of \<open>src/models/models.py\<close>\<close>

lemma end_epoch_src_frame [simp]:
  "cls_src (end_epoch_src e s) = cls_src s"
  "epochs_src (end_epoch_src e s) = epochs_src s"
  "drop_lam_src (end_epoch_src e s) = drop_lam_src s"
  "z_src (end_epoch_src e s) = z_src s"
  "torch_module_src (end_epoch_src e s) = torch_module_src s"
  "cls_src s = GRAE_src \<Longrightarrow> end_epoch_src e s = s"
  by (simp_all add: end_epoch_src_def SGRAE_end_epoch_def split: src_class.splits option.splits)




section \<open>Evaluating concrete runs\<close>

lemmas fit_defs =
  fit_trace_def fit_setup_def log_metrics_def log_metrics_val_def epoch_range_def
  run_epoch_def eval_MSE_def batches_def BaseDataset_getitem_def BaseDataset_len_def
  chunks_def collate_def DataLoader_def get_loader_def init_torch_module_def
  train_body_def compute_loss_def AE_compute_loss_def GRAEBase_compute_loss_def
  less_xreal_def save_def load_def
  checkpoint_path_def path_join_def end_epoch_def AE_end_epoch_def GRAEBase_end_epoch_def
  half_patience_def restore_checkpoint_def AE_fit_def fit_train_def GRAEBase_fit_def
  GRAEBase_fit_trace_def improved_at_def improved_def reset_training_state_def
  AE_init_def GRAEBase_init_def demo_env_def one_sample_def no_files_def demo_model_def
  demo_grae_def demo_trace_def demo_trained_def demo_fitted_def demo_stale_def
  tensor_defs upt_rec


section \<open>The composite loss\<close>

text \<open>
  C1, as the code has it.  With \<open>lam > 0\<close>, operands of equal shape and batch indices that
  select rows of the target embedding, \<open>GRAEBase.compute_loss\<close> of \<open>grae_models.py\<close> is the
  mean squared error between input and reconstruction plus \<open>lam\<close> times the mean squared
  error between the latents and the selected rows; \<open>GRAE.apply_loss\<close> of
  \<open>src/models/models.py\<close>, whose criterion is built with \<open>reduction='sum'\<close>, is the sum of
  squared errors plus \<open>lam\<close> times the sum of squared errors.
\<close>

theorem composite_loss_mean_and_sum:
  assumes "same_shape x x_hat" and "same_shape z target"
    and "squared_errors x x_hat \<noteq> []" and "squared_errors z target \<noteq> []"
    and "index_rows emb idx = Inr target"
  shows "(0 < lam st \<and> target_embedding st = Some emb \<longrightarrow>
            GRAEBase_compute_loss st x x_hat z idx =
              Inr (mean_squared_error x x_hat + lam st * mean_squared_error z target))
       \<and> (0 < lam_src st' \<and> z_src st' = Some emb \<longrightarrow>
            GRAE_src_apply_loss st' x x_hat z idx =
              Inr (sum_squared_error x x_hat + lam_src st' * sum_squared_error z target))"
  using assms
  by (simp add: GRAEBase_compute_loss_def GRAE_src_apply_loss_def criterion_same
      criterion_src_same)

theorem composite_loss_mean_and_sum_witness:
  "same_shape [[1, 1]] [[0, 0]] \<and> same_shape [[1]] [[0]]
   \<and> squared_errors [[1, 1]] [[0, 0]] \<noteq> [] \<and> squared_errors [[1]] [[0]] \<noteq> []
   \<and> index_rows [[0]] [0] = Inr [[0]]
   \<and> GRAEBase_compute_loss
        ((GRAEBase_init no_files 1 False 1 1 1 None [] :: (real, nat) model)
           \<lparr>target_embedding := Some [[0]]\<rparr>)
        [[1, 1]] [[0, 0]] [[1]] [0] = Inr 2
   \<and> GRAE_src_apply_loss
        ((GRAE_src_init 1 None None 1 1 :: (real, nat) src_model)\<lparr>z_src := Some [[0]]\<rparr>)
        [[1, 1]] [[0, 0]] [[1]] [0] = Inr 3"
  using composite_loss_mean_and_sum
    [of "[[1, 1]]" "[[0, 0]]" "[[1]]" "[[0]]" "[[0]]" "[0]"
        "(GRAEBase_init no_files 1 False 1 1 1 None [] :: (real, nat) model)
           \<lparr>target_embedding := Some [[0]]\<rparr>"
        "(GRAE_src_init 1 None None 1 1 :: (real, nat) src_model)\<lparr>z_src := Some [[0]]\<rparr>"]
  by (simp add: tensor_defs GRAEBase_init_def AE_init_def GRAE_src_init_def AE_src_init_def)

text \<open>
  C1 as stated fails on \<open>src/models/models.py\<close>: for one sample \<open>[1, 1]\<close> reconstructed as
  \<open>[0, 0]\<close>, latent \<open>[1]\<close>, target \<open>[0]\<close> and \<open>lam = 1\<close>, the loss applied is \<open>3\<close>, not the
  \<open>1 + 1 * 1 = 2\<close> of the mean squared errors.
\<close>

theorem GRAE_src_apply_loss_not_mean:
  "GRAE_src_apply_loss
     ((GRAE_src_init 1 None None 1 1 :: (real, nat) src_model)\<lparr>z_src := Some [[0]]\<rparr>)
     [[1, 1]] [[0, 0]] [[1]] [0]
   \<noteq> Inr (mean_squared_error [[1, 1]] [[0, 0]] + 1 * mean_squared_error [[1]] [[0]])"
  by (simp add: GRAE_src_apply_loss_def GRAE_src_init_def AE_src_init_def tensor_defs)

text \<open>
  C9.  When \<open>lam\<close> is zero, \<open>GRAEBase.compute_loss\<close> returns what \<open>AE.compute_loss\<close> returns
  (the same value or the same error); the loss of a batch as a function of the parameters,
  which is all the optimizer step sees, and hence the whole mini-batch loop are the same for
  the two classes; and whenever the loss with the lookup made is defined, it is that value.
\<close>

theorem GRAEBase_compute_loss_lam_zero:
  assumes "lam st = 0"
  shows "GRAEBase_compute_loss st x x_hat z idx = AE_compute_loss x x_hat z idx
       \<and> train_body env (st\<lparr>cls := GRAEBase\<rparr>) = train_body env (st\<lparr>cls := AE\<rparr>)
       \<and> train_batches env (train_body env (st\<lparr>cls := GRAEBase\<rparr>)) bs po =
           train_batches env (train_body env (st\<lparr>cls := AE\<rparr>)) bs po
       \<and> (\<forall>emb v. composite_loss (lam st) x x_hat z emb idx = Inr v \<longrightarrow>
             GRAEBase_compute_loss st x x_hat z idx = Inr v)"
proof -
  have loss: "GRAEBase_compute_loss st x x_hat z idx = AE_compute_loss x x_hat z idx"
    for x x_hat z idx
    using assms by (simp add: GRAEBase_compute_loss_def AE_compute_loss_def)
  have body: "train_body env (st\<lparr>cls := GRAEBase\<rparr>) = train_body env (st\<lparr>cls := AE\<rparr>)"
    using assms
    by (auto simp: fun_eq_iff train_body_def compute_loss_def GRAEBase_compute_loss_def
        AE_compute_loss_def split: prod.splits)
  have "GRAEBase_compute_loss st x x_hat z idx = Inr v"
    if "composite_loss (lam st) x x_hat z emb idx = Inr v" for emb v
    using that assms
    by (auto simp: composite_loss_def GRAEBase_compute_loss_def bind_e_eq_Inr)
  with loss body show ?thesis by simp
qed

theorem GRAEBase_compute_loss_lam_zero_witness:
  "lam (GRAEBase_init no_files 0 False 1 1 1 None [] :: (real, nat) model) = 0
   \<and> GRAEBase_compute_loss (GRAEBase_init no_files 0 False 1 1 1 None [] :: (real, nat) model)
        [[1, 1]] [[0, 0]] [[1]] [0] = Inr 1
   \<and> AE_compute_loss [[1, 1]] [[0, 0]] [[1]] [0] = Inr 1"
  using GRAEBase_compute_loss_lam_zero
    [of "GRAEBase_init no_files 0 False 1 1 1 None [] :: (real, nat) model"
        "[[1, 1]]" "[[0, 0]]" "[[1]]" "[0]" demo_env "[]" "(0, 0)"]
  by (simp add: GRAEBase_init_def AE_init_def AE_compute_loss_def tensor_defs)

section \<open>The Siamese variant\<close>

text \<open>
  In \<open>SGRAE.apply_loss\<close> the index halves are \<open>idx[:half]\<close> and \<open>idx[half:2 * half]\<close>, but the
  latent halves are \<open>z[:half]\<close> and \<open>z[half:]\<close>: for an odd batch the second is one row longer,
  and from five samples on the subtraction cannot broadcast.
\<close>

lemma SGRAE_apply_loss_odd_general:
  assumes "0 < lam_src st" and "odd (length x)" and "5 \<le> length x" and "length z = length x"
  shows "SGRAE_apply_loss st x x_hat z idx = Inl RuntimeError"
proof -
  let ?h = "length x div 2"
  have h: "2 \<le> ?h" "length x = 2 * ?h + 1"
    using assms by (auto elim: oddE)
  then have "length (take ?h z) = ?h" "length (drop ?h z) = ?h + 1"
    using assms(4) by auto
  then have "bcast_len (length (take ?h z)) (length (drop ?h z)) = None"
    using h by (simp add: bcast_len_def)
  then show ?thesis
    using assms(1) by (simp add: SGRAE_apply_loss_def elementwise2_def bcast1_def Let_def)
qed

lemma sqrt_nine: "sqrt 9 = 3"
  by (rule real_sqrt_unique) simp_all

text \<open>
  With three samples the subtraction broadcasts \<open>z[:1]\<close> against the two rows of \<open>z[1:]\<close>: the
  third sample is not dropped but paired with the first, against the reference distance of
  the first pair.
\<close>

lemma SGRAE_apply_loss_three_pairs_last:
  "SGRAE_apply_loss
     ((SGRAE_init 10 None 1 3 :: (real, nat) src_model)
        \<lparr>d_mx_src := Some (replicate 3 (replicate 3 0))\<rparr>)
     [[0], [0], [0]] [[0], [0], [0]] [[0], [0], [3]] [0, 1, 2]
   = Inr 90"
  by (simp add: SGRAE_apply_loss_def SGRAE_init_def AE_src_init_def index_pairs_def norm_rows_def
      tensor_defs sqrt_nine)

text \<open>
  C4 at a batch of five samples with \<open>lam = 10\<close>: the loss computation raises (torch's
  \<open>RuntimeError\<close> for operands whose sizes do not match) instead of succeeding with the
  fifth sample dropped.
\<close>

theorem SGRAE_apply_loss_five_raises:
  "SGRAE_apply_loss
     ((SGRAE_init 10 None 1 5 :: (real, nat) src_model)
        \<lparr>d_mx_src := Some (replicate 5 (replicate 5 0))\<rparr>)
     [[0], [0], [0], [0], [0]] [[0], [0], [0], [0], [0]] [[0], [1], [2], [3], [4]]
     [0, 1, 2, 3, 4]
   = Inl RuntimeError"
  by (simp add: SGRAE_apply_loss_def SGRAE_init_def AE_src_init_def elementwise2_def bcast1_def
      bcast_len_def)

section \<open>Sample indices\<close>

text \<open>
  C10.  For every dataset and every position \<open>i\<close> that is valid for it (\<open>0 \<le> i < len\<close>, with a
  target stored at \<open>i\<close>), \<open>__getitem__\<close> returns the sample, its target and \<open>i\<close> itself.
\<close>

theorem BaseDataset_getitem_index:
  assumes "0 \<le> i" and "i < int (BaseDataset_len ds)" and "i < int (length (targets ds))"
  shows "BaseDataset_getitem ds i = Inr (data ds ! nat i, targets ds ! nat i, i)"
  using assms by (simp add: BaseDataset_getitem_def BaseDataset_len_def py_index_def)

theorem BaseDataset_getitem_index_witness:
  "(0::int) \<le> 1
   \<and> 1 < int (BaseDataset_len \<lparr>data = [[5], [6]], targets = [[0], [1]], sample_shape = [1]\<rparr>)
   \<and> 1 < int (length (targets \<lparr>data = [[5], [6]], targets = [[0], [1]], sample_shape = [1]\<rparr>))
   \<and> BaseDataset_getitem \<lparr>data = [[5], [6]], targets = [[0], [1]], sample_shape = [1]\<rparr> 1
       = Inr ([6], [1], 1)"
  using BaseDataset_getitem_index
    [of 1 "\<lparr>data = [[5], [6]], targets = [[0], [1]], sample_shape = [1]\<rparr>"]
  by (simp add: BaseDataset_len_def)


text \<open>
  For a train split, position \<open>i\<close> of the dataset holds the sample that the splitter put at
  place \<open>i\<close> of its train positions, and \<open>__getitem__\<close> returns \<open>i\<close>, not that sample's
  position in the data the split was taken from.
\<close>

lemma BaseDataset_init_train_position:
  assumes init: "BaseDataset_init splitter x x_shape y ''train'' split_ratio seed = Inr ds"
    and i: "0 \<le> i" "i < int (BaseDataset_len ds)"
  shows "\<exists>row tgt. BaseDataset_getitem ds i = Inr (row, tgt, i)
           \<and> py_index x (fst (splitter (length x) split_ratio seed) ! nat i) = Inr row
           \<and> py_index y (fst (splitter (length x) split_ratio seed) ! nat i) = Inr tgt"
proof -
  let ?tr = "fst (splitter (length x) split_ratio seed)"
  from init obtain xs ys where xs: "index_rows x ?tr = Inr xs" and ys: "index_rows y ?tr = Inr ys"
    and ds: "ds = \<lparr>data = xs, targets = ys, sample_shape = x_shape\<rparr>"
    by (auto simp: BaseDataset_init_def get_split_def bind_e_eq_Inr split: prod.splits)
  from i ds index_rows_nth(1) [OF xs] index_rows_nth(1) [OF ys]
  have n: "nat i < length ?tr" "nat i < length xs" "nat i < length ys"
    by (simp_all add: BaseDataset_len_def)
  have "BaseDataset_getitem ds i = Inr (xs ! nat i, ys ! nat i, i)"
    using i n ds by (simp add: BaseDataset_getitem_def BaseDataset_len_def py_index_def)
  with index_rows_nth(2) [OF xs n(1)] index_rows_nth(2) [OF ys n(1)]
  show ?thesis by simp
qed

section \<open>Early stopping\<close>




text \<open>
  The same happens when the patience is zero and the only improvement is the one of the
  metrics pass before the loop: the counter is \<open>1\<close>, \<open>2\<close>, ... at the tests after epochs \<open>1\<close>,
  \<open>2\<close>, ..., never \<open>0\<close>, and the loop runs its whole budget (here two epochs).
\<close>

lemma early_stopping_patience_zero:
  "fit_trace demo_env (one_sample 1) (demo_model 2 0 (Some 0)) = Inr (demo_trace (demo_model 2 0 (Some 0)))
   \<and> data_val (demo_model 2 0 (Some 0)) \<noteq> None
   \<and> improved_at demo_env (demo_model 2 0 (Some 0)) (demo_trace (demo_model 2 0 (Some 0))) 0
   \<and> \<not> improved_at demo_env (demo_model 2 0 (Some 0)) (demo_trace (demo_model 2 0 (Some 0))) 1
   \<and> \<not> improved_at demo_env (demo_model 2 0 (Some 0)) (demo_trace (demo_model 2 0 (Some 0))) 2
   \<and> length (demo_trace (demo_model 2 0 (Some 0))) = 3
   \<and> \<not> (length (demo_trace (demo_model 2 0 (Some 0))) - 1
          \<le> 0 + nat (patience (demo_model 2 0 (Some 0))))"
  by (simp add: fit_defs)

section \<open>Restoring the checkpoint\<close>




section \<open>No validation split\<close>

text \<open>What the constructors give when no validation split is passed.\<close>

lemma constructed_without_validation:
  "data_val (AE_init fs e b p None wp) = None \<and> val_loader (AE_init fs e b p None wp) = None
   \<and> early_stopping_count (AE_init fs e b p None wp) = 0
   \<and> data_val (GRAEBase_init fs l r e b p None wp) = None
   \<and> val_loader (GRAEBase_init fs l r e b p None wp) = None
   \<and> early_stopping_count (GRAEBase_init fs l r e b p None wp) = 0"
  by (simp add: AE_init_def GRAEBase_init_def)

text \<open>
  C8, as the code has it.  A model constructed without a validation split has
  \<open>data_val = None\<close>, \<open>val_loader = None\<close> and an early-stopping counter of zero.  Every fit call
  on such a model whose patience is not zero runs exactly the configured number of epochs;
  the counter stays zero throughout.  After the loop \<open>fit\<close> only looks for a checkpoint
  file: the call writes none, so with no file in the directory beforehand \<open>fit\<close> returns the
  state of the last epoch, and whenever \<open>fit\<close> returns it leaves the model in such a state
  again.
\<close>

theorem no_validation_full_budget:
  assumes tr: "fit_trace env x st = Inr tr"
    and dv: "data_val st = None" and vl: "val_loader st = None"
    and c0: "early_stopping_count st = 0"
    and pat: "patience st \<noteq> 0"
  shows "length tr - 1 = nat (epochs st)
       \<and> (\<forall>j. j < length tr \<longrightarrow> early_stopping_count (tr ! j) = 0)
       \<and> (files st (checkpoint_path st) = None \<longrightarrow> AE_fit env x st = Inr (last tr))
       \<and> (\<forall>s'. AE_fit env x st = Inr s' \<longrightarrow>
             early_stopping_count s' = 0 \<and> data_val s' = None \<and> val_loader s' = None
             \<and> patience s' = patience st)"
proof -
  have cnt: "early_stopping_count (tr ! j) = 0" if "j < length tr" for j
    using no_validation_counter [OF tr dv vl that] c0 by simp
  note l = fit_trace_last [OF tr]
  have len: "length tr - 1 = nat (epochs st)"
  proof (rule ccontr)
    assume "length tr - 1 \<noteq> nat (epochs st)"
    with fit_trace_length [OF tr] have "length tr - 1 < nat (epochs st)" by simp
    from fit_trace_stopped [OF tr this] l(1) cnt [OF l(2)] pat show False by simp
  qed
  from fit_trace_frame [OF tr l(2)] fit_trace_val_loader(2) [OF tr dv] vl l(1) dv
  have f: "data_val (last tr) = None" "val_loader (last tr) = None"
    "patience (last tr) = patience st" "checkpoint_path (last tr) = checkpoint_path st"
    by simp_all
  from no_validation_counter [OF tr dv vl l(2)] l(1) have fl: "files (last tr) = files st"
    by simp
  have absent: "AE_fit env x st = Inr (last tr)" if "files st (checkpoint_path st) = None"
    using that fl f(4) AE_fit_trace [OF tr] by (simp add: restore_checkpoint_None)
  have returned: "early_stopping_count s' = 0 \<and> data_val s' = None \<and> val_loader s' = None
      \<and> patience s' = patience st" if "AE_fit env x st = Inr s'" for s'
  proof -
    from that AE_fit_trace [OF tr] have "restore_checkpoint env (last tr) = Inr s'" by simp
    from restore_checkpoint_frame [OF this] f cnt [OF l(2)] l(1) show ?thesis by simp
  qed
  from len cnt absent returned show ?thesis by blast
qed

theorem no_validation_full_budget_witness:
  "fit_trace demo_env (one_sample 1) (demo_model 3 2 None) = Inr (demo_trace (demo_model 3 2 None))
   \<and> data_val (demo_model 3 2 None) = None \<and> val_loader (demo_model 3 2 None) = None
   \<and> early_stopping_count (demo_model 3 2 None) = 0 \<and> patience (demo_model 3 2 None) \<noteq> 0
   \<and> epochs (demo_model 3 2 None) = 3
   \<and> files (demo_model 3 2 None) (checkpoint_path (demo_model 3 2 None)) = None
   \<and> length (demo_trace (demo_model 3 2 None)) - 1 = 3
   \<and> map early_stopping_count (demo_trace (demo_model 3 2 None)) = [0, 0, 0, 0]
   \<and> AE_fit demo_env (one_sample 1) (demo_model 3 2 None)
       = Inr (last (demo_trace (demo_model 3 2 None)))
   \<and> map_sum id early_stopping_count (AE_fit demo_env (one_sample 1) (demo_model 3 2 None)) = Inr 0"
proof -
  let ?st = "demo_model 3 2 None"
  have tr: "fit_trace demo_env (one_sample 1) ?st = Inr (demo_trace ?st)"
    by (simp add: fit_defs)
  have h: "data_val ?st = None" "val_loader ?st = None" "early_stopping_count ?st = 0"
    "patience ?st \<noteq> 0" "epochs ?st = 3"
    by (simp_all add: fit_defs)
  have nf: "files ?st (checkpoint_path ?st) = None"
    by (simp add: fit_defs)
  have cs: "map early_stopping_count (demo_trace ?st) = [0, 0, 0, 0]"
    by (simp add: fit_defs)
  from no_validation_full_budget [OF tr h(1-4)] h(5) nf
  have r: "length (demo_trace ?st) - 1 = 3"
    "AE_fit demo_env (one_sample 1) ?st = Inr (last (demo_trace ?st))"
    "early_stopping_count (last (demo_trace ?st)) = 0"
    by auto
  with tr h nf cs show ?thesis by simp
qed

text \<open>
  C8 as stated fails when the patience is zero: the counter, which stays \<open>0\<close>, equals the
  patience at the test after the first epoch, and the loop is left after one epoch of a
  budget of three.
\<close>

theorem no_validation_patience_zero:
  "data_val (demo_model 3 0 None) = None \<and> val_loader (demo_model 3 0 None) = None
   \<and> early_stopping_count (demo_model 3 0 None) = 0
   \<and> epochs (demo_model 3 0 None) = 3
   \<and> fit_trace demo_env (one_sample 1) (demo_model 3 0 None) = Inr (demo_trace (demo_model 3 0 None))
   \<and> length (demo_trace (demo_model 3 0 None)) - 1 = 1
   \<and> length (demo_trace (demo_model 3 0 None)) - 1 \<noteq> nat (epochs (demo_model 3 0 None))"
  by (simp add: fit_defs)

section \<open>Relaxation of the regularisation weight\<close>



section \<open>The training state across fit calls\<close>

text \<open>
  C5, as the code has it.  The constructor sets the minimum validation loss to infinity and
  the early-stopping counter to zero.  \<open>fit\<close> does not set them: its set-up leaves both as
  the instance held them when \<open>fit\<close> was called, and the first metrics pass and the epoch
  loop, whose epoch counter starts at \<open>1\<close> in every call, go on from these values.
\<close>

theorem training_state_set_by_constructor:
  fixes st :: "('p, 'o) model"
  assumes "fit_setup env x st = Inr s"
  shows "current_loss_min (AE_init fs e b p dv wp :: ('p, 'o) model) = PInfinity
       \<and> early_stopping_count (AE_init fs e b p dv wp :: ('p, 'o) model) = 0
       \<and> current_loss_min s = current_loss_min st
       \<and> early_stopping_count s = early_stopping_count st
       \<and> fit_train env x st =
           bind_e (log_metrics env 0 s) (\<lambda>s0. epoch_loop env [1..<nat (epochs st + 1)] s0)"
proof -
  have "epoch_range s0 = [1..<nat (epochs st + 1)]" if "log_metrics env 0 s = Inr s0" for s0
    using log_metrics_frame(2) [OF that] fit_setup_frame(9) [OF assms]
    by (simp add: epoch_range_def)
  then have "fit_train env x st =
           bind_e (log_metrics env 0 s) (\<lambda>s0. epoch_loop env [1..<nat (epochs st + 1)] s0)"
    using assms by (cases "log_metrics env 0 s") (simp_all add: fit_train_def)
  with fit_setup_frame(1,2) [OF assms] show ?thesis
    by (simp add: AE_init_def)
qed

theorem training_state_set_by_constructor_witness:
  "fit_setup demo_env (one_sample 1) (demo_fitted (demo_model 3 1 (Some 0)))
     = Inr (projr (fit_setup demo_env (one_sample 1) (demo_fitted (demo_model 3 1 (Some 0)))))
   \<and> current_loss_min (demo_fitted (demo_model 3 1 (Some 0))) = Real 0
   \<and> early_stopping_count (demo_fitted (demo_model 3 1 (Some 0))) = 1
   \<and> current_loss_min
        (projr (fit_setup demo_env (one_sample 1) (demo_fitted (demo_model 3 1 (Some 0))))) = Real 0
   \<and> early_stopping_count
        (projr (fit_setup demo_env (one_sample 1) (demo_fitted (demo_model 3 1 (Some 0))))) = 1"
proof -
  let ?st = "demo_fitted (demo_model 3 1 (Some 0))"
  let ?s = "projr (fit_setup demo_env (one_sample 1) ?st)"
  have s: "fit_setup demo_env (one_sample 1) ?st = Inr ?s"
    by (simp add: fit_defs)
  have m: "current_loss_min ?st = Real 0" and c: "early_stopping_count ?st = 1"
    by (simp_all add: fit_defs)
  from training_state_set_by_constructor [OF s, of no_files 0 0 0 None "[]"] m c
  have "current_loss_min ?s = Real 0" "early_stopping_count ?s = 1"
    by simp_all
  with s m c show ?thesis by simp
qed

text \<open>
  C5 as stated fails: after a first fit call that stopped early (minimum \<open>0\<close>, counter \<open>1\<close>),
  a second call on the same instance starts its first metrics pass from these values (the
  counter becomes \<open>2\<close>), never reaches the patience of \<open>1\<close> again and ends with counter \<open>5\<close>
  and the parameters of its last epoch, where the same call on a reset training state stops
  after one epoch and restores the checkpoint.
\<close>

theorem second_fit_inherits_training_state:
  "map_sum id current_loss_min (AE_fit demo_env (one_sample 1) (demo_model 3 1 (Some 0)))
     = Inr (Real 0)
   \<and> map_sum id early_stopping_count (AE_fit demo_env (one_sample 1) (demo_model 3 1 (Some 0)))
     = Inr 1
   \<and> map early_stopping_count (demo_trace (demo_fitted (demo_model 3 1 (Some 0)))) = [2, 3, 4, 5]
   \<and> map early_stopping_count
        (demo_trace (reset_training_state (demo_fitted (demo_model 3 1 (Some 0))))) = [0, 1]
   \<and> map_sum id early_stopping_count
        (AE_fit demo_env (one_sample 1) (demo_fitted (demo_model 3 1 (Some 0)))) = Inr 5
   \<and> map_sum id torch_module
        (AE_fit demo_env (one_sample 1) (demo_fitted (demo_model 3 1 (Some 0)))) = Inr (Some 3)
   \<and> map_sum id early_stopping_count
        (AE_fit demo_env (one_sample 1)
           (reset_training_state (demo_fitted (demo_model 3 1 (Some 0))))) = Inr 1
   \<and> map_sum id torch_module
        (AE_fit demo_env (one_sample 1)
           (reset_training_state (demo_fitted (demo_model 3 1 (Some 0))))) = Inr (Some 0)"
  by (simp add: fit_defs)

section \<open>Subsampling in \<open>GRAE.fit\<close> of \<open>src/models/models.py\<close>\<close>

text \<open>The constructor of \<open>GRAE\<close> always leaves an integer in \<open>drop_lam\<close>.\<close>

lemma GRAE_src_init_drop_lam:
  "cls_src (GRAE_src_init l d m e b) = GRAE_src
   \<and> (\<exists>dl. drop_lam_src (GRAE_src_init l d m e b) = Some dl)
   \<and> max_grae_src (GRAE_src_init l d m e b) = m"
  by (simp add: GRAE_src_init_def AE_src_init_def)



lemma train_body_src_frame [simp]:
  "train_body_src env (s\<lparr>torch_module_src := a, optimizer_src := b\<rparr>) = train_body_src env s"
  by (simp add: fun_eq_iff train_body_src_def apply_loss_def GRAE_src_apply_loss_def
      SGRAE_apply_loss_def split: prod.splits src_class.splits)





end
